theory Spec2Isabelle
  imports Complex_Main "HOL-Library.AList"
begin

section \<open>Order status (app/domain/orders/value\_objects.py)\<close>

datatype OrderStatus =
  PROCESSING | CONFIRMED | SHIPPED | OUT_FOR_DELIVERY | DELIVERED | CANCELLED | REFUNDED

text \<open>The dictionary literal of \<open>OrderStatus.can_transition_to\<close>, in the order it is written.\<close>

definition valid_transitions :: "(OrderStatus \<times> OrderStatus list) list" where
  "valid_transitions =
     [(PROCESSING, [CONFIRMED, CANCELLED]),
      (CONFIRMED, [SHIPPED, CANCELLED]),
      (SHIPPED, [OUT_FOR_DELIVERY, CANCELLED]),
      (OUT_FOR_DELIVERY, [DELIVERED]),
      (DELIVERED, [REFUNDED]),
      (CANCELLED, []),
      (REFUNDED, [])]"

text \<open>\<open>return new in valid_transitions.get(current, [])\<close>\<close>

definition can_transition_to :: "OrderStatus \<Rightarrow> OrderStatus \<Rightarrow> bool" where
  "can_transition_to current new =
     (new \<in> set (case map_of valid_transitions current of None \<Rightarrow> [] | Some nexts \<Rightarrow> nexts))"

definition is_final :: "OrderStatus \<Rightarrow> bool" where
  "is_final s = (s \<in> set [DELIVERED, CANCELLED, REFUNDED])"

definition is_cancellable :: "OrderStatus \<Rightarrow> bool" where
  "is_cancellable s = (s \<in> set [PROCESSING, CONFIRMED, SHIPPED])"

text \<open>
  The transition table as the specification words it (section 4.1), kept apart from the
  code's dictionary so that the two can be compared.
\<close>

fun spec_allowed_next :: "OrderStatus \<Rightarrow> OrderStatus set" where
  "spec_allowed_next PROCESSING = {CONFIRMED, CANCELLED}"
| "spec_allowed_next CONFIRMED = {SHIPPED, CANCELLED}"
| "spec_allowed_next SHIPPED = {OUT_FOR_DELIVERY, CANCELLED}"
| "spec_allowed_next OUT_FOR_DELIVERY = {DELIVERED}"
| "spec_allowed_next DELIVERED = {REFUNDED}"
| "spec_allowed_next CANCELLED = {}"
| "spec_allowed_next REFUNDED = {}"

section \<open>Errors\<close>

text \<open>
  Every exception the order workflow can raise is a value. \<open>NotFoundError\<close>,
  \<open>ValidationError\<close> and \<open>ForbiddenError\<close> are the classes of app/core/exceptions.py (their
  messages are left out); \<open>PydanticValidationError\<close> is the error pydantic raises when an
  entity's field constraints fail; \<open>RecursionError\<close> is Python's error when the call depth
  passes the interpreter's limit; \<open>InvalidDocument\<close> is the driver's error for a value it
  cannot encode; \<open>DuplicateKeyError\<close> is its error for an insert under an \<open>_id\<close> that is
  already present; \<open>AttributeError\<close> is Python's error for reading a field of \<open>None\<close>.
\<close>

datatype error =
  NotFoundError | ValidationError | ForbiddenError | PydanticValidationError |
  RecursionError | InvalidDocument | DuplicateKeyError | AttributeError

section \<open>Entities (app/domain/orders/entities.py, app/domain/products/entities.py)\<close>

text \<open>
  The value of a \<open>Decimal\<close> is a rational number (every finite decimal is one); the digits
  with which it is written play no part. Timestamps are integers; \<open>datetime.utcnow()\<close> is
  the argument \<open>now\<close> of the operation that reads the clock.
\<close>

type_synonym Decimal = rat
type_synonym datetime = int

record ShippingInfo =
  address :: string
  city :: string
  country :: string
  postal_code :: string
  phone_no :: string

record PaymentInfo =
  payment_id :: string
  status :: string

text \<open>\<open>OrderItem.price\<close> is declared \<open>int\<close> in the source; \<open>quantity\<close> is \<open>int\<close>.\<close>

record OrderItem =
  product :: string
  name :: string
  price :: int
  quantity :: int
  image :: string

record Order =
  user :: string
  shipping_info :: ShippingInfo
  order_items :: "OrderItem list"
  items_price :: Decimal
  tax_price :: Decimal
  shipping_price :: Decimal
  total_price :: Decimal
  payment_info :: "PaymentInfo option"
  paid_at :: "datetime option"
  delivered_at :: "datetime option"
  order_status :: OrderStatus
  created_at :: datetime

text \<open>
  Of \<open>Product\<close> the order workflow reads \<open>name\<close> and \<open>stock\<close> and writes \<open>stock\<close>; the catalogue
  fields (description, ratings, images, category, seller, reviews) play no part and are
  left out.
\<close>

record Product =
  product_name :: string
  product_price :: Decimal
  stock :: int

text \<open>
  The dictionaries that \<open>OrderService.create_order\<close> receives in \<open>order_items\<close>: the keys it
  reads are \<open>product\<close>, \<open>name\<close>, \<open>price\<close>, \<open>quantity\<close> and \<open>image\<close>. \<open>item_price\<close> stands for the
  value \<open>Decimal(str(item["price"]))\<close>.
\<close>

record item_dict =
  item_product :: string
  item_name :: string
  item_price :: Decimal
  item_quantity :: int
  item_image :: string

subsection \<open>Decimal addition\<close>

text \<open>
  Python adds two \<open>Decimal\<close>s under the default context: the exact sum is rounded to 28
  significant digits, a tie going to the even neighbour. (The context's exponent limits
  are outside the model.)
\<close>

text \<open>The number of decimal digits of a non-negative integer.\<close>

function digits :: "int \<Rightarrow> nat" where
  "digits n = (if n < 10 then 1 else Suc (digits (n div 10)))"
  by pat_completeness auto
termination
  by (relation "measure nat") auto

text \<open>
  For \<open>0 < a\<close>: how many times \<open>a\<close> must be multiplied by 10 to reach 1, looking at most
  \<open>fuel\<close> steps ahead (as many as the denominator has digits are enough).
\<close>

fun leading_zeros :: "nat \<Rightarrow> rat \<Rightarrow> nat" where
  "leading_zeros 0 a = 0"
| "leading_zeros (Suc fuel) a = (if 1 \<le> a then 0 else Suc (leading_zeros fuel (a * 10)))"

text \<open>For \<open>0 < a\<close>: the exponent \<open>e\<close> of the leading digit, \<open>10 ^ e \<le> a < 10 ^ (e + 1)\<close>.\<close>

definition adjusted :: "rat \<Rightarrow> int" where
  "adjusted a =
     (if 1 \<le> a then int (digits \<lfloor>a\<rfloor>) - 1
      else - int (leading_zeros (digits (snd (quotient_of a))) a))"

definition round_half_even :: "rat \<Rightarrow> int" where
  "round_half_even x =
     (if x - of_int \<lfloor>x\<rfloor> < 1 / 2 then \<lfloor>x\<rfloor>
      else if 1 / 2 < x - of_int \<lfloor>x\<rfloor> then \<lfloor>x\<rfloor> + 1
      else if even \<lfloor>x\<rfloor> then \<lfloor>x\<rfloor> else \<lfloor>x\<rfloor> + 1)"

definition context_prec :: int where
  "context_prec = 28"

definition context_round :: "rat \<Rightarrow> rat" where
  "context_round x =
     (if x = 0 then 0
      else (let q = adjusted \<bar>x\<bar> - (context_prec - 1)
            in if 0 \<le> q
               then sgn x * of_int (round_half_even (\<bar>x\<bar> / 10 ^ nat q)) * 10 ^ nat q
               else sgn x * of_int (round_half_even (\<bar>x\<bar> * 10 ^ nat (- q))) / 10 ^ nat (- q)))"

definition decimal_add :: "Decimal \<Rightarrow> Decimal \<Rightarrow> Decimal" where
  "decimal_add x y = context_round (x + y)"

subsection \<open>Field validation\<close>

text \<open>
  \<open>BaseEntity\<close> sets \<open>str_strip_whitespace\<close>: every string field is stripped of leading and
  trailing whitespace before its constraints are checked. A character of the model is a
  code point below 256; the whitespace among these is U+0009 to U+000D, U+0020, U+0085 and
  U+00A0.
\<close>

definition is_space :: "char \<Rightarrow> bool" where
  "is_space c =
     (c \<in> set [CHR '' '', CHR 0x09, CHR 0x0A, CHR 0x0B, CHR 0x0C, CHR 0x0D, CHR 0x85, CHR 0xA0])"

definition str_strip :: "string \<Rightarrow> string" where
  "str_strip s = rev (dropWhile is_space (rev (dropWhile is_space s)))"

text \<open>\<open>ShippingInfo(...)\<close>: five string fields, each with \<open>min_length=1\<close>.\<close>

definition ShippingInfo_init ::
  "string \<Rightarrow> string \<Rightarrow> string \<Rightarrow> string \<Rightarrow> string \<Rightarrow> error + ShippingInfo" where
  "ShippingInfo_init a c co pc ph =
     (if 1 \<le> length (str_strip a) \<and> 1 \<le> length (str_strip c) \<and> 1 \<le> length (str_strip co)
         \<and> 1 \<le> length (str_strip pc) \<and> 1 \<le> length (str_strip ph)
      then Inr \<lparr>address = str_strip a, city = str_strip c, country = str_strip co,
                postal_code = str_strip pc, phone_no = str_strip ph\<rparr>
      else Inl PydanticValidationError)"

text \<open>\<open>PaymentInfo(...)\<close>: two unconstrained string fields.\<close>

definition PaymentInfo_init :: "string \<Rightarrow> string \<Rightarrow> PaymentInfo" where
  "PaymentInfo_init i s = \<lparr>payment_id = str_strip i, status = str_strip s\<rparr>"

text \<open>
  \<open>OrderItem(...)\<close>. The validator \<open>convert_price\<close> passes a \<open>Decimal\<close> through unchanged;
  the field is an \<open>int\<close>, and pydantic takes a \<open>Decimal\<close> for an \<open>int\<close> only when it has no
  fractional part. Then \<open>price\<close> has \<open>ge=0\<close> and \<open>quantity\<close> has \<open>ge=1\<close>.
\<close>

definition OrderItem_init ::
  "string \<Rightarrow> string \<Rightarrow> Decimal \<Rightarrow> int \<Rightarrow> string \<Rightarrow> error + OrderItem" where
  "OrderItem_init p n pr q im =
     (if of_int \<lfloor>pr\<rfloor> = pr \<and> 0 \<le> \<lfloor>pr\<rfloor> \<and> 1 \<le> q
      then Inr \<lparr>product = str_strip p, name = str_strip n, price = \<lfloor>pr\<rfloor>, quantity = q,
                image = str_strip im\<rparr>
      else Inl PydanticValidationError)"

text \<open>\<open>OrderItem.subtotal\<close>: \<open>self.price * self.quantity\<close>.\<close>

definition subtotal :: "OrderItem \<Rightarrow> int" where
  "subtotal item = price item * quantity item"

subsection \<open>The model validator of \<open>Order\<close>\<close>

text \<open>
  \<open>Order.calculate_totals\<close> is a model validator of mode \<open>after\<close>, and \<open>BaseEntity\<close> sets
  \<open>validate_assignment\<close>. So each of its two assignments validates the new value against the
  field's constraint (\<open>ge=0\<close>), sets the field, and then runs the model's after-validator,
  \<open>calculate_totals\<close> itself, on the entity again. The first argument counts the nested runs
  that Python still allows: when none is left, the interpreter raises \<open>RecursionError\<close>.
  \<open>sum\<close> starts from 0 and adds the subtotals from left to right.
\<close>

fun calculate_totals :: "nat \<Rightarrow> Order \<Rightarrow> error + Order" where
  "calculate_totals 0 self = Inl RecursionError"
| "calculate_totals (Suc depth) self =
     (case (if order_items self \<noteq> []
            then (if (0::rat) \<le> of_int (foldl (+) 0 (map subtotal (order_items self)))
                  then calculate_totals depth
                         (self\<lparr>items_price :=
                                 of_int (foldl (+) 0 (map subtotal (order_items self)))\<rparr>)
                  else Inl PydanticValidationError)
            else Inr self) of
        Inl e \<Rightarrow> Inl e
      | Inr self1 \<Rightarrow>
          if 0 \<le> decimal_add (decimal_add (items_price self1) (tax_price self1))
                   (shipping_price self1)
          then calculate_totals depth
                 (self1\<lparr>total_price :=
                          decimal_add (decimal_add (items_price self1) (tax_price self1))
                            (shipping_price self1)\<rparr>)
          else Inl PydanticValidationError)"

text \<open>
  The interpreter's limit on nested calls (\<open>sys.getrecursionlimit()\<close>, 1000 unless changed);
  a nested run of the validator takes at least one call.
\<close>

definition recursion_limit :: nat where
  "recursion_limit = 1000"

text \<open>
  \<open>Order(...)\<close> as \<open>create_order\<close> calls it: \<open>order_items\<close> has \<open>min_length=1\<close>, the three
  prices passed have \<open>ge=0\<close>, \<open>total_price\<close> and \<open>delivered_at\<close> take their defaults, and
  \<open>created_at\<close> is the clock reading of its default factory. The nested entities are already
  validated instances. When the fields are valid the after-validator runs.
\<close>

definition Order_init ::
  "string \<Rightarrow> ShippingInfo \<Rightarrow> OrderItem list \<Rightarrow> Decimal \<Rightarrow> Decimal \<Rightarrow> Decimal \<Rightarrow>
   PaymentInfo option \<Rightarrow> datetime option \<Rightarrow> OrderStatus \<Rightarrow> datetime \<Rightarrow> error + Order" where
  "Order_init u sh its ip tp sp pay paid st now =
     (if 1 \<le> length its \<and> 0 \<le> ip \<and> 0 \<le> tp \<and> 0 \<le> sp
      then calculate_totals recursion_limit
             \<lparr>user = str_strip u, shipping_info = sh, order_items = its, items_price = ip,
              tax_price = tp, shipping_price = sp, total_price = 0, payment_info = pay,
              paid_at = paid, delivered_at = None, order_status = st, created_at = now\<rparr>
      else Inl PydanticValidationError)"

text \<open>
  \<open>Order.model_validate(document)\<close>, by which the order repository turns a stored document
  into an entity: the nested shipping address, items and payment information are validated,
  then the order's own fields, then the after-validator runs. pydantic reports all failing
  fields in one error.
\<close>

fun validate_items :: "OrderItem list \<Rightarrow> error + OrderItem list" where
  "validate_items [] = Inr []"
| "validate_items (item # items) =
     (case OrderItem_init (product item) (name item) (of_int (price item)) (quantity item)
             (image item) of
        Inl e \<Rightarrow> Inl e
      | Inr x \<Rightarrow> (case validate_items items of Inl e \<Rightarrow> Inl e | Inr xs \<Rightarrow> Inr (x # xs)))"

definition Order_model_validate :: "Order \<Rightarrow> error + Order" where
  "Order_model_validate document =
     (case ShippingInfo_init (address (shipping_info document)) (city (shipping_info document))
             (country (shipping_info document)) (postal_code (shipping_info document))
             (phone_no (shipping_info document)) of
        Inl e \<Rightarrow> Inl e
      | Inr shipping \<Rightarrow>
     (case validate_items (order_items document) of
        Inl e \<Rightarrow> Inl e
      | Inr items \<Rightarrow>
          if 1 \<le> length items \<and> 0 \<le> items_price document \<and> 0 \<le> tax_price document
             \<and> 0 \<le> shipping_price document \<and> 0 \<le> total_price document
          then calculate_totals recursion_limit
                 (document\<lparr>user := str_strip (user document), shipping_info := shipping,
                    order_items := items,
                    payment_info :=
                      map_option (\<lambda>p. PaymentInfo_init (payment_id p) (status p))
                        (payment_info document)\<rparr>)
          else Inl PydanticValidationError))"

text \<open>\<open>Order.can_cancel\<close> and \<open>Order.can_transition_to\<close> delegate to the status.\<close>

definition can_cancel :: "Order \<Rightarrow> bool" where
  "can_cancel self = is_cancellable (order_status self)"

definition order_can_transition_to :: "Order \<Rightarrow> OrderStatus \<Rightarrow> bool" where
  "order_can_transition_to self new_status = can_transition_to (order_status self) new_status"

section \<open>Collections (app/infrastructure/repositories)\<close>

text \<open>
  A MongoDB collection is a list of documents, each under its \<open>_id\<close>; the server keeps the
  \<open>_id\<close>s of a collection distinct. The type \<open>'i\<close> is the type of \<open>_id\<close>s. The parser
  \<open>bson.ObjectId\<close> of strings is not part of the repository, so every operation that calls
  it takes it as its first argument \<open>ObjectId\<close>: \<open>None\<close> stands for the exception that the
  callers catch. A stored product stands for the \<open>Product\<close> entity it is read as
  (\<open>Product\<close> has field constraints only); a stored order is a document with the fields of
  \<open>Order\<close>, which \<open>Order.model_validate\<close> turns into an entity when it is read.
\<close>

type_synonym ('i, 'd) collection = "('i \<times> 'd) list"

record 'i database =
  products :: "('i, Product) collection"
  orders :: "('i, Order) collection"

text \<open>
  \<open>collection.update_one({"_id": object_id, ...cond...}, update)\<close>: the document under
  \<open>object_id\<close> is updated when it exists and satisfies the rest of the filter. The first
  component is \<open>modified_count\<close>, which counts a document only if the update changed it.
\<close>

definition update_one ::
  "('i, 'd) collection \<Rightarrow> 'i \<Rightarrow> ('d \<Rightarrow> bool) \<Rightarrow> ('d \<Rightarrow> 'd) \<Rightarrow> nat \<times> ('i, 'd) collection" where
  "update_one c object_id cond upd =
     (case map_of c object_id of
        None \<Rightarrow> (0, c)
      | Some d \<Rightarrow>
          if cond d then ((if upd d = d then 0 else 1), AList.update object_id (upd d) c)
          else (0, c))"

text \<open>\<open>collection.insert_one(document)\<close>, with \<open>new_id\<close> the \<open>_id\<close> the driver generates.\<close>

definition insert_one :: "('i, 'd) collection \<Rightarrow> 'i \<Rightarrow> 'd \<Rightarrow> error + ('i, 'd) collection" where
  "insert_one c new_id d =
     (case map_of c new_id of
        None \<Rightarrow> Inr (c @ [(new_id, d)])
      | Some _ \<Rightarrow> Inl DuplicateKeyError)"

text \<open>
  \<open>BaseMongoRepository.get_by_id\<close>, up to the document found: the id is parsed and the
  document under it looked up. For the product repository this is the whole of it.
\<close>

definition get_by_id :: "(string \<Rightarrow> 'i option) \<Rightarrow> ('i, 'd) collection \<Rightarrow> string \<Rightarrow> 'd option" where
  "get_by_id ObjectId c entity_id =
     (case ObjectId entity_id of
        None \<Rightarrow> None
      | Some object_id \<Rightarrow> map_of c object_id)"

text \<open>
  \<open>get_by_id\<close> of the order repository: the document found goes through \<open>_to_entity\<close>, that
  is \<open>Order.model_validate\<close>.
\<close>

definition order_get_by_id ::
  "(string \<Rightarrow> 'i option) \<Rightarrow> ('i, Order) collection \<Rightarrow> string \<Rightarrow> error + Order option" where
  "order_get_by_id ObjectId c entity_id =
     (case get_by_id ObjectId c entity_id of
        None \<Rightarrow> Inr None
      | Some document \<Rightarrow>
          (case Order_model_validate document of
             Inl e \<Rightarrow> Inl e
           | Inr order \<Rightarrow> Inr (Some order)))"

text \<open>
  The driver's BSON encoder, applied by \<open>insert_one\<close> to the document that \<open>_to_document\<close>
  (\<open>model_dump\<close>) makes of an \<open>Order\<close>. The document carries the entity's four price fields as
  \<open>decimal.Decimal\<close> values; the encoder has no codec for that type (none is registered in
  app/core/dependencies.py) and raises \<open>InvalidDocument\<close>, whatever the order.
\<close>

definition bson_encode :: "Order \<Rightarrow> error + Order" where
  "bson_encode document = Inl InvalidDocument"

text \<open>
  \<open>create\<close> of the order repository: encode and insert the document, then read it back
  under its \<open>_id\<close> and turn it into an entity. The collection returned is the collection
  left behind, also when an exception is raised.
\<close>

definition create ::
  "('i, Order) collection \<Rightarrow> 'i \<Rightarrow> Order \<Rightarrow> (error + Order option) \<times> ('i, Order) collection" where
  "create c new_id entity =
     (case bson_encode entity of
        Inl e \<Rightarrow> (Inl e, c)
      | Inr document \<Rightarrow>
     (case insert_one c new_id document of
        Inl e \<Rightarrow> (Inl e, c)
      | Inr c' \<Rightarrow>
     (case map_of c' new_id of
        None \<Rightarrow> (Inr None, c')
      | Some created_doc \<Rightarrow>
          (case Order_model_validate created_doc of
             Inl e \<Rightarrow> (Inl e, c')
           | Inr created \<Rightarrow> (Inr (Some created), c')))))"

text \<open>
  \<open>MongoProductRepository.update_stock\<close>: the filter asks for
  \<open>stock >= (-quantity_change if quantity_change < 0 else 0)\<close>, the update is \<open>$inc\<close>.
\<close>

definition update_stock ::
  "(string \<Rightarrow> 'i option) \<Rightarrow> ('i, Product) collection \<Rightarrow> string \<Rightarrow> int \<Rightarrow>
   bool \<times> ('i, Product) collection" where
  "update_stock ObjectId c product_id quantity_change =
     (case ObjectId product_id of
        None \<Rightarrow> (False, c)
      | Some object_id \<Rightarrow>
          (case update_one c object_id
                  (\<lambda>p. (if quantity_change < 0 then - quantity_change else 0) \<le> stock p)
                  (\<lambda>p. p\<lparr>stock := stock p + quantity_change\<rparr>) of
             (modified_count, c') \<Rightarrow> (0 < modified_count, c')))"

text \<open>\<open>MongoOrderRepository.update_status\<close>\<close>

definition update_status ::
  "(string \<Rightarrow> 'i option) \<Rightarrow> ('i, Order) collection \<Rightarrow> datetime \<Rightarrow> string \<Rightarrow> OrderStatus \<Rightarrow>
   bool \<times> ('i, Order) collection" where
  "update_status ObjectId c now order_id st =
     (case ObjectId order_id of
        None \<Rightarrow> (False, c)
      | Some object_id \<Rightarrow>
          (case update_one c object_id (\<lambda>_. True)
                  (\<lambda>doc. if st = DELIVERED
                          then doc\<lparr>order_status := st, delivered_at := Some now\<rparr>
                          else doc\<lparr>order_status := st\<rparr>) of
             (modified_count, c') \<Rightarrow> (0 < modified_count, c')))"

text \<open>\<open>MongoOrderRepository.mark_as_delivered\<close>\<close>

definition repo_mark_as_delivered ::
  "(string \<Rightarrow> 'i option) \<Rightarrow> ('i, Order) collection \<Rightarrow> datetime \<Rightarrow> string \<Rightarrow> datetime option \<Rightarrow>
   bool \<times> ('i, Order) collection" where
  "repo_mark_as_delivered ObjectId c now order_id delivered =
     (case ObjectId order_id of
        None \<Rightarrow> (False, c)
      | Some object_id \<Rightarrow>
          (case update_one c object_id (\<lambda>_. True)
                  (\<lambda>doc. doc\<lparr>order_status := DELIVERED,
                              delivered_at := Some (case delivered of None \<Rightarrow> now | Some t \<Rightarrow> t)\<rparr>) of
             (modified_count, c') \<Rightarrow> (0 < modified_count, c')))"

subsection \<open>Sales statistics\<close>

record SalesStats =
  total_orders :: int
  total_sales :: Decimal
  average_order_value :: Decimal
  delivered_orders :: int
  processing_orders :: int
  cancelled_orders :: int

text \<open>The \<open>$match\<close> stage on \<open>created_at\<close>; with neither bound there is no stage.\<close>

definition match_stage :: "datetime option \<Rightarrow> datetime option \<Rightarrow> Order \<Rightarrow> bool" where
  "match_stage start_date end_date doc =
     ((case start_date of None \<Rightarrow> True | Some s \<Rightarrow> s \<le> created_at doc) \<and>
      (case end_date of None \<Rightarrow> True | Some e \<Rightarrow> created_at doc \<le> e))"

text \<open>
  The \<open>$group\<close> stage with \<open>_id: None\<close>: one result document when at least one document
  reaches it, none otherwise. MongoDB's accumulators \<open>$sum\<close> and \<open>$avg\<close> over the stored
  \<open>total_price\<close> values are the server's (they work on doubles): they are the arguments
  \<open>sum_acc\<close> and \<open>avg_acc\<close>, each giving the number the server returns.
\<close>

definition group_stage ::
  "(Decimal list \<Rightarrow> Decimal) \<Rightarrow> (Decimal list \<Rightarrow> Decimal) \<Rightarrow> Order list \<Rightarrow> SalesStats list" where
  "group_stage sum_acc avg_acc docs =
     (if docs = [] then []
      else [\<lparr>total_orders = int (length docs),
             total_sales = sum_acc (map total_price docs),
             average_order_value = avg_acc (map total_price docs),
             delivered_orders = int (length (filter (\<lambda>d. order_status d = DELIVERED) docs)),
             processing_orders = int (length (filter (\<lambda>d. order_status d = PROCESSING) docs)),
             cancelled_orders = int (length (filter (\<lambda>d. order_status d = CANCELLED) docs))\<rparr>])"

text \<open>\<open>MongoOrderRepository.get_sales_stats\<close>\<close>

definition get_sales_stats ::
  "(Decimal list \<Rightarrow> Decimal) \<Rightarrow> (Decimal list \<Rightarrow> Decimal) \<Rightarrow> ('i, Order) collection \<Rightarrow>
   datetime option \<Rightarrow> datetime option \<Rightarrow> SalesStats" where
  "get_sales_stats sum_acc avg_acc c start_date end_date =
     (case take 1 (group_stage sum_acc avg_acc
                    (filter (match_stage start_date end_date) (map snd c))) of
        stats # _ \<Rightarrow> stats
      | [] \<Rightarrow> \<lparr>total_orders = 0, total_sales = 0, average_order_value = 0,
                delivered_orders = 0, processing_orders = 0, cancelled_orders = 0\<rparr>)"

section \<open>Order service (app/services/order\_service.py)\<close>

text \<open>
  Every operation takes the database and returns its result together with the database it
  leaves behind; an exception does not undo the writes made before it was raised.
\<close>

definition get_order :: "(string \<Rightarrow> 'i option) \<Rightarrow> 'i database \<Rightarrow> string \<Rightarrow> error + Order" where
  "get_order ObjectId db order_id =
     (case order_get_by_id ObjectId (orders db) order_id of
        Inl e \<Rightarrow> Inl e
      | Inr None \<Rightarrow> Inl NotFoundError
      | Inr (Some order) \<Rightarrow> Inr order)"

definition get_user_order ::
  "(string \<Rightarrow> 'i option) \<Rightarrow> 'i database \<Rightarrow> string \<Rightarrow> string \<Rightarrow> error + Order" where
  "get_user_order ObjectId db order_id user_id =
     (case get_order ObjectId db order_id of
        Inl e \<Rightarrow> Inl e
      | Inr order \<Rightarrow> if user order \<noteq> user_id then Inl ForbiddenError else Inr order)"

text \<open>
  The first loop of \<open>create_order\<close> (``Validate stock availability''): both the missing
  product and the insufficient stock raise \<open>ValidationError\<close>, at the first item that fails.
\<close>

fun validate_stock_availability ::
  "(string \<Rightarrow> 'i option) \<Rightarrow> ('i, Product) collection \<Rightarrow> item_dict list \<Rightarrow> error + unit" where
  "validate_stock_availability ObjectId c [] = Inr ()"
| "validate_stock_availability ObjectId c (item # items) =
     (case get_by_id ObjectId c (item_product item) of
        None \<Rightarrow> Inl ValidationError
      | Some p \<Rightarrow>
          if stock p < item_quantity item then Inl ValidationError
          else validate_stock_availability ObjectId c items)"

text \<open>The list comprehension that builds the \<open>OrderItem\<close>s; the first failure raises.\<close>

fun build_items :: "item_dict list \<Rightarrow> error + OrderItem list" where
  "build_items [] = Inr []"
| "build_items (item # items) =
     (case OrderItem_init (item_product item) (item_name item) (item_price item)
             (item_quantity item) (item_image item) of
        Inl e \<Rightarrow> Inl e
      | Inr x \<Rightarrow> (case build_items items of Inl e \<Rightarrow> Inl e | Inr xs \<Rightarrow> Inr (x # xs)))"

text \<open>
  The last loop of \<open>create_order\<close> (``Reduce stock for each item''): the result of
  \<open>update_stock\<close> is not looked at.
\<close>

fun reduce_stock_for_each_item ::
  "(string \<Rightarrow> 'i option) \<Rightarrow> ('i, Product) collection \<Rightarrow> item_dict list \<Rightarrow> ('i, Product) collection" where
  "reduce_stock_for_each_item ObjectId c [] = c"
| "reduce_stock_for_each_item ObjectId c (item # items) =
     reduce_stock_for_each_item ObjectId
       (snd (update_stock ObjectId c (item_product item) (- item_quantity item))) items"

text \<open>
  \<open>OrderService.create_order\<close>. \<open>new_id\<close> is the \<open>_id\<close> the driver generates for the new
  document and \<open>now\<close> the clock. The order read back by \<open>create\<close> is used after the stock
  loop, in the log call.
\<close>

definition create_order ::
  "(string \<Rightarrow> 'i option) \<Rightarrow> 'i database \<Rightarrow> 'i \<Rightarrow> datetime \<Rightarrow> string \<Rightarrow> ShippingInfo \<Rightarrow>
   item_dict list \<Rightarrow> Decimal \<Rightarrow> Decimal \<Rightarrow> Decimal \<Rightarrow> PaymentInfo \<Rightarrow> (error + Order) \<times> 'i database" where
  "create_order ObjectId db new_id now user_id shipping_info_d order_items_d items_price_a
       tax_price_a shipping_price_a payment_info_d =
     (case validate_stock_availability ObjectId (products db) order_items_d of
        Inl e \<Rightarrow> (Inl e, db)
      | Inr _ \<Rightarrow>
     (case ShippingInfo_init (address shipping_info_d) (city shipping_info_d)
             (country shipping_info_d) (postal_code shipping_info_d) (phone_no shipping_info_d) of
        Inl e \<Rightarrow> (Inl e, db)
      | Inr shipping \<Rightarrow>
     (case build_items order_items_d of
        Inl e \<Rightarrow> (Inl e, db)
      | Inr items \<Rightarrow>
     (case Order_init user_id shipping items items_price_a tax_price_a shipping_price_a
             (Some (PaymentInfo_init (payment_id payment_info_d) (status payment_info_d)))
             (if status payment_info_d = ''succeeded'' then Some now else None)
             PROCESSING now of
        Inl e \<Rightarrow> (Inl e, db)
      | Inr order \<Rightarrow>
     (case create (orders db) new_id order of
        (Inl e, orders') \<Rightarrow> (Inl e, db\<lparr>orders := orders'\<rparr>)
      | (Inr created_order, orders') \<Rightarrow>
          (case created_order of None \<Rightarrow> Inl AttributeError | Some created \<Rightarrow> Inr created,
           \<lparr>products = reduce_stock_for_each_item ObjectId (products db) order_items_d,
            orders = orders'\<rparr>))))))"

text \<open>\<open>OrderService.update_order_status\<close>\<close>

definition update_order_status ::
  "(string \<Rightarrow> 'i option) \<Rightarrow> 'i database \<Rightarrow> datetime \<Rightarrow> string \<Rightarrow> OrderStatus \<Rightarrow>
   (error + Order) \<times> 'i database" where
  "update_order_status ObjectId db now order_id st =
     (case get_order ObjectId db order_id of
        Inl e \<Rightarrow> (Inl e, db)
      | Inr order \<Rightarrow>
          if \<not> order_can_transition_to order st then (Inl ValidationError, db)
          else (let db' = db\<lparr>orders := snd (update_status ObjectId (orders db) now order_id st)\<rparr>
                in (get_order ObjectId db' order_id, db')))"

text \<open>The loop of \<open>cancel_order\<close> (``Restore stock'').\<close>

fun restore_stock ::
  "(string \<Rightarrow> 'i option) \<Rightarrow> ('i, Product) collection \<Rightarrow> OrderItem list \<Rightarrow> ('i, Product) collection" where
  "restore_stock ObjectId c [] = c"
| "restore_stock ObjectId c (item # items) =
     restore_stock ObjectId (snd (update_stock ObjectId c (product item) (quantity item))) items"

text \<open>\<open>OrderService.cancel_order\<close>\<close>

definition cancel_order ::
  "(string \<Rightarrow> 'i option) \<Rightarrow> 'i database \<Rightarrow> datetime \<Rightarrow> string \<Rightarrow> string \<Rightarrow>
   (error + Order) \<times> 'i database" where
  "cancel_order ObjectId db now order_id user_id =
     (case get_user_order ObjectId db order_id user_id of
        Inl e \<Rightarrow> (Inl e, db)
      | Inr order \<Rightarrow>
          if \<not> can_cancel order then (Inl ValidationError, db)
          else (let db' = \<lparr>products = restore_stock ObjectId (products db) (order_items order),
                            orders = snd (update_status ObjectId (orders db) now order_id CANCELLED)\<rparr>
                in (get_order ObjectId db' order_id, db')))"

text \<open>\<open>OrderService.mark_as_delivered\<close>\<close>

definition mark_as_delivered ::
  "(string \<Rightarrow> 'i option) \<Rightarrow> 'i database \<Rightarrow> datetime \<Rightarrow> string \<Rightarrow> (error + Order) \<times> 'i database" where
  "mark_as_delivered ObjectId db now order_id =
     (case get_order ObjectId db order_id of
        Inl e \<Rightarrow> (Inl e, db)
      | Inr order \<Rightarrow>
          if \<not> order_can_transition_to order DELIVERED then (Inl ValidationError, db)
          else (let db' = db\<lparr>orders :=
                              snd (repo_mark_as_delivered ObjectId (orders db) now order_id None)\<rparr>
                in (get_order ObjectId db' order_id, db')))"

section \<open>Well-formedness used in the statements\<close>

text \<open>
  The requests that pass the field constraints of the entities \<open>create_order\<close> builds:
  the shipping fields are not blank, there is at least one item, every item has an integral
  non-negative price and a quantity of at least 1, and the three amounts are non-negative.
\<close>

definition valid_order_request ::
  "ShippingInfo \<Rightarrow> item_dict list \<Rightarrow> Decimal \<Rightarrow> Decimal \<Rightarrow> Decimal \<Rightarrow> bool" where
  "valid_order_request shipping_info_d order_items_d items_price_a tax_price_a shipping_price_a =
     (str_strip (address shipping_info_d) \<noteq> [] \<and> str_strip (city shipping_info_d) \<noteq> [] \<and>
      str_strip (country shipping_info_d) \<noteq> [] \<and> str_strip (postal_code shipping_info_d) \<noteq> [] \<and>
      str_strip (phone_no shipping_info_d) \<noteq> [] \<and>
      order_items_d \<noteq> [] \<and>
      list_all (\<lambda>item. of_int \<lfloor>item_price item\<rfloor> = item_price item \<and> 0 \<le> item_price item
                  \<and> 1 \<le> item_quantity item) order_items_d \<and>
      0 \<le> items_price_a \<and> 0 \<le> tax_price_a \<and> 0 \<le> shipping_price_a)"

text \<open>
  The stored order documents that pass the field constraints of \<open>Order\<close> and of its nested
  entities.
\<close>

definition valid_order_document :: "Order \<Rightarrow> bool" where
  "valid_order_document document =
     (str_strip (address (shipping_info document)) \<noteq> [] \<and>
      str_strip (city (shipping_info document)) \<noteq> [] \<and>
      str_strip (country (shipping_info document)) \<noteq> [] \<and>
      str_strip (postal_code (shipping_info document)) \<noteq> [] \<and>
      str_strip (phone_no (shipping_info document)) \<noteq> [] \<and>
      order_items document \<noteq> [] \<and>
      list_all (\<lambda>item. 0 \<le> price item \<and> 1 \<le> quantity item) (order_items document) \<and>
      0 \<le> items_price document \<and> 0 \<le> tax_price document \<and> 0 \<le> shipping_price document \<and>
      0 \<le> total_price document)"

text \<open>Every order document of the database has at least one line item.\<close>

definition orders_have_items :: "'i database \<Rightarrow> bool" where
  "orders_have_items db = list_all (\<lambda>(k, order). order_items order \<noteq> []) (orders db)"

section \<open>Example data\<close>

text \<open>
  An instance of the id parser for evaluating the operations at concrete inputs: it accepts
  the strings of 24 lower-case hexadecimal digits, each as its own id, and rejects every
  other string.
\<close>

definition hex_ObjectId :: "string \<Rightarrow> string option" where
  "hex_ObjectId s =
     (if length s = 24 \<and> list_all (\<lambda>c. c \<in> set ''0123456789abcdef'') s then Some s else None)"

definition widget_id :: string where
  "widget_id = ''65f1c0de0000000000000001''"

definition gadget_id :: string where
  "gadget_id = ''65f1c0de0000000000000002''"

definition order_id_1 :: string where
  "order_id_1 = ''65f1c0de00000000000000a1''"

definition example_products :: "int \<Rightarrow> (string, Product) collection" where
  "example_products n =
     [(widget_id, \<lparr>product_name = ''Widget'', product_price = 10, stock = n\<rparr>)]"

definition example_shipping :: ShippingInfo where
  "example_shipping =
     \<lparr>address = ''1 Main St'', city = ''Chennai'', country = ''IN'', postal_code = ''600001'',
      phone_no = ''5550100''\<rparr>"

definition example_payment :: PaymentInfo where
  "example_payment = \<lparr>payment_id = ''pi_1'', status = ''succeeded''\<rparr>"

definition example_item :: "int \<Rightarrow> item_dict" where
  "example_item q =
     \<lparr>item_product = widget_id, item_name = ''Widget'', item_price = 10, item_quantity = q,
      item_image = ''widget.png''\<rparr>"

definition example_order :: "OrderStatus \<Rightarrow> Order" where
  "example_order st =
     \<lparr>user = ''alice'', shipping_info = example_shipping,
      order_items = [\<lparr>product = widget_id, name = ''Widget'', price = 10, quantity = 3,
                      image = ''widget.png''\<rparr>],
      items_price = 30, tax_price = 2, shipping_price = 3, total_price = 35,
      payment_info = Some example_payment, paid_at = Some 100, delivered_at = None,
      order_status = st, created_at = 100\<rparr>"

definition example_db :: "OrderStatus \<Rightarrow> string database" where
  "example_db st = \<lparr>products = example_products 2, orders = [(order_id_1, example_order st)]\<rparr>"

section \<open>The state machine agrees with the specification's table\<close>

text \<open>
  Claim C1. For every pair of statuses, \<open>can_transition_to current target\<close> is true exactly
  when \<open>target\<close> is in the allowed-next set that the specification's table gives for
  \<open>current\<close>; every pair outside the table yields false. The function is a pure function of
  its two arguments: it reads and writes no state.
\<close>

theorem can_transition_to_matches_table:
  "can_transition_to current target = (target \<in> spec_allowed_next current)"
  by (cases current; cases target; simp add: can_transition_to_def valid_transitions_def)

section \<open>Auxiliary facts\<close>

lemma foldl_plus_sum_list: "foldl (+) a xs = (a::int) + sum_list xs"
  by (induction xs arbitrary: a) simp_all

lemma map_of_update_one:
  "map_of (snd (update_one c k cond upd)) =
     (case map_of c k of
        None \<Rightarrow> map_of c
      | Some d \<Rightarrow> if cond d then (map_of c)(k \<mapsto> upd d) else map_of c)"
  by (simp add: update_one_def update_conv' split: option.split)

lemma map_of_update_stock:
  "map_of (snd (update_stock ObjectId c product_id q)) =
     (case ObjectId product_id of
        None \<Rightarrow> map_of c
      | Some k \<Rightarrow>
          (case map_of c k of
             None \<Rightarrow> map_of c
           | Some p \<Rightarrow>
               if (if q < 0 then - q else 0) \<le> stock p
               then (map_of c)(k \<mapsto> p\<lparr>stock := stock p + q\<rparr>)
               else map_of c))"
proof (cases "ObjectId product_id")
  case None
  then show ?thesis by (simp add: update_stock_def)
next
  case (Some k)
  have "snd (update_stock ObjectId c product_id q) =
        snd (update_one c k (\<lambda>p. (if q < 0 then - q else 0) \<le> stock p)
               (\<lambda>p. p\<lparr>stock := stock p + q\<rparr>))"
    by (simp add: update_stock_def Some split: prod.split)
  then show ?thesis
    by (simp add: Some map_of_update_one)
qed

lemma stock_update_eq: "(p\<lparr>stock := s\<rparr> = p) = (s = stock p)"
  by (cases p) simp

lemma update_stock_missing:
  "get_by_id ObjectId c product_id = None \<Longrightarrow>
     update_stock ObjectId c product_id quantity_change = (False, c)"
proof (cases "ObjectId product_id")
  case None
  then show ?thesis by (simp add: update_stock_def)
next
  case (Some k)
  assume "get_by_id ObjectId c product_id = None"
  with Some have "map_of c k = None" by (simp add: get_by_id_def)
  with Some show ?thesis by (simp add: update_stock_def update_one_def)
qed

lemma update_stock_zero:
  "fst (update_stock ObjectId c product_id 0) = False"
  by (simp add: update_stock_def update_one_def split: option.splits prod.splits)

lemma validate_stock_availability_ok:
  "\<forall>item \<in> set items. \<exists>k p. ObjectId (item_product item) = Some k \<and> map_of c k = Some p
      \<and> item_quantity item \<le> stock p
   \<Longrightarrow> validate_stock_availability ObjectId c items = Inr ()"
  by (induction items) (auto simp: get_by_id_def)

lemma validate_stock_availability_fails:
  "item \<in> set items \<Longrightarrow>
   get_by_id ObjectId c (item_product item) = None \<or>
     (\<exists>p. get_by_id ObjectId c (item_product item) = Some p \<and> stock p < item_quantity item)
   \<Longrightarrow> validate_stock_availability ObjectId c items = Inl ValidationError"
  by (induction items) (auto split: option.splits)

subsection \<open>The model validator never returns\<close>

lemma calculate_totals_not_Inr: "calculate_totals depth self \<noteq> Inr order"
proof (induction depth arbitrary: self order)
  case 0
  show ?case by simp
next
  case (Suc depth)
  show ?case
    using Suc.IH by (auto split: sum.splits if_splits)
qed

lemma calculate_totals_cases:
  "calculate_totals depth self = Inl RecursionError
   \<or> calculate_totals depth self = Inl PydanticValidationError"
proof (induction depth arbitrary: self)
  case 0
  show ?case by simp
next
  case (Suc depth)
  let ?v = "rat_of_int (foldl (+) 0 (map subtotal (order_items self)))"
  let ?t = "decimal_add (decimal_add (items_price self) (tax_price self)) (shipping_price self)"
  show ?case
  proof (cases "order_items self \<noteq> []")
    case True
    show ?thesis
    proof (cases "0 \<le> ?v")
      case True
      from Suc.IH [of "self\<lparr>items_price := ?v\<rparr>"] \<open>order_items self \<noteq> []\<close> True
      show ?thesis by auto
    next
      case False
      with \<open>order_items self \<noteq> []\<close> show ?thesis by simp
    qed
  next
    case False
    show ?thesis
    proof (cases "0 \<le> ?t")
      case True
      from Suc.IH [of "self\<lparr>total_price := ?t\<rparr>"] \<open>\<not> order_items self \<noteq> []\<close> True
      show ?thesis by auto
    next
      case False
      with \<open>\<not> order_items self \<noteq> []\<close> show ?thesis by simp
    qed
  qed
qed

lemma calculate_totals_raises:
  "order_items self \<noteq> [] \<Longrightarrow> 0 \<le> foldl (+) 0 (map subtotal (order_items self)) \<Longrightarrow>
     calculate_totals depth self = Inl RecursionError"
proof (induction depth arbitrary: self)
  case 0
  show ?case by simp
next
  case (Suc depth)
  let ?self' = "self\<lparr>items_price := of_int (foldl (+) 0 (map subtotal (order_items self)))\<rparr>"
  have "calculate_totals depth ?self' = Inl RecursionError"
    using Suc.prems by (intro Suc.IH) simp_all
  with Suc.prems show ?case by simp
qed

lemma subtotals_nonneg:
  assumes "list_all (\<lambda>item. 0 \<le> price item \<and> 1 \<le> quantity item) its"
  shows "0 \<le> foldl (+) 0 (map subtotal its)"
proof -
  have "0 \<le> subtotal item" if "item \<in> set its" for item
  proof -
    from assms that have "0 \<le> price item" and "0 \<le> quantity item"
      by (auto simp: list_all_iff)
    then show ?thesis by (simp add: subtotal_def)
  qed
  then have "0 \<le> sum_list (map subtotal its)"
    by (intro sum_list_nonneg) auto
  then show ?thesis by (simp add: foldl_plus_sum_list)
qed

lemma Order_init_not_Inr: "Order_init u sh its ip tp sp pay paid st now \<noteq> Inr order"
  by (simp add: Order_init_def calculate_totals_not_Inr)

lemma Order_init_cases:
  "Order_init u sh its ip tp sp pay paid st now = Inl RecursionError
   \<or> Order_init u sh its ip tp sp pay paid st now = Inl PydanticValidationError"
  using calculate_totals_cases by (simp add: Order_init_def)

lemma Order_init_raises:
  assumes "its \<noteq> []" and "0 \<le> ip" and "0 \<le> tp" and "0 \<le> sp"
    and "list_all (\<lambda>item. 0 \<le> price item \<and> 1 \<le> quantity item) its"
  shows "Order_init u sh its ip tp sp pay paid st now = Inl RecursionError"
proof -
  have "1 \<le> length its" using assms(1) by (cases its) simp_all
  then show ?thesis
    using assms subtotals_nonneg [OF assms(5)]
    by (simp add: Order_init_def calculate_totals_raises)
qed

lemma validate_items_valid:
  "list_all (\<lambda>item. 0 \<le> price item \<and> 1 \<le> quantity item) its \<Longrightarrow>
     \<exists>xs. validate_items its = Inr xs \<and> length xs = length its
        \<and> list_all (\<lambda>item. 0 \<le> price item \<and> 1 \<le> quantity item) xs"
  by (induction its) (auto simp: OrderItem_init_def)

lemma Order_model_validate_not_Inr: "Order_model_validate document \<noteq> Inr order"
  by (simp add: Order_model_validate_def calculate_totals_not_Inr split: sum.splits)

lemma Order_model_validate_cases:
  "Order_model_validate document = Inl RecursionError
   \<or> Order_model_validate document = Inl PydanticValidationError"
proof -
  have s: "ShippingInfo_init a c co pc ph = Inl e \<Longrightarrow> e = PydanticValidationError"
    for a c co pc ph e
    by (simp add: ShippingInfo_init_def split: if_splits)
  have v: "validate_items its = Inl e \<Longrightarrow> e = PydanticValidationError" for its e
    by (induction its) (auto simp: OrderItem_init_def split: sum.splits if_splits)
  show ?thesis
    using calculate_totals_cases
    by (auto simp: Order_model_validate_def split: sum.splits dest: s v)
qed

lemma Order_model_validate_raises:
  assumes "valid_order_document document"
  shows "Order_model_validate document = Inl RecursionError"
proof -
  obtain shipping where sh: "ShippingInfo_init (address (shipping_info document))
      (city (shipping_info document)) (country (shipping_info document))
      (postal_code (shipping_info document)) (phone_no (shipping_info document)) = Inr shipping"
    using assms by (simp add: valid_order_document_def ShippingInfo_init_def Suc_le_eq)
  from assms have ok: "list_all (\<lambda>item. 0 \<le> price item \<and> 1 \<le> quantity item)
                         (order_items document)"
    and ne: "order_items document \<noteq> []"
    by (simp_all add: valid_order_document_def)
  from validate_items_valid [OF ok] obtain xs where
    xs: "validate_items (order_items document) = Inr xs"
    and len: "length xs = length (order_items document)"
    and okx: "list_all (\<lambda>item. 0 \<le> price item \<and> 1 \<le> quantity item) xs"
    by blast
  from len ne have nex: "xs \<noteq> []" by auto
  then have l1: "1 \<le> length xs" by (cases xs) simp_all
  show ?thesis
    using assms l1 nex subtotals_nonneg [OF okx]
    by (simp add: Order_model_validate_def sh xs valid_order_document_def calculate_totals_raises)
qed

subsection \<open>Reading and writing orders\<close>

lemma get_order_not_Inr: "get_order ObjectId db order_id \<noteq> Inr order"
  using Order_model_validate_not_Inr
  by (auto simp: get_order_def order_get_by_id_def split: sum.splits option.splits)

lemma get_order_raises:
  "get_by_id ObjectId (orders db) order_id = Some document \<Longrightarrow> valid_order_document document
   \<Longrightarrow> get_order ObjectId db order_id = Inl RecursionError"
  by (simp add: get_order_def order_get_by_id_def Order_model_validate_raises)

lemma create_raises: "create c new_id entity = (Inl InvalidDocument, c)"
  by (simp add: create_def bson_encode_def)

lemma build_items_valid:
  "list_all (\<lambda>item. of_int \<lfloor>item_price item\<rfloor> = item_price item \<and> 0 \<le> item_price item
                  \<and> 1 \<le> item_quantity item) items_d
   \<Longrightarrow> \<exists>items. build_items items_d = Inr items \<and> length items = length items_d
         \<and> list_all (\<lambda>item. 0 \<le> price item \<and> 1 \<le> quantity item) items"
  by (induction items_d) (auto simp: OrderItem_init_def)

lemma create_order_not_Inr:
  "fst (create_order ObjectId db new_id now user_id shipping_info_d order_items_d items_price_a
          tax_price_a shipping_price_a payment_info_d) \<noteq> Inr order"
  using Order_init_not_Inr
  by (auto simp: create_order_def split: sum.splits)

lemma create_order_unchanged:
  "snd (create_order ObjectId db new_id now user_id shipping_info_d order_items_d items_price_a
          tax_price_a shipping_price_a payment_info_d) = db"
  using Order_init_not_Inr
  by (auto simp: create_order_def split: sum.splits)

lemma update_order_status_unchanged:
  "\<exists>e. update_order_status ObjectId db now order_id st = (Inl e, db)"
proof (cases "get_order ObjectId db order_id")
  case (Inl e)
  then show ?thesis by (simp add: update_order_status_def)
next
  case (Inr order)
  with get_order_not_Inr show ?thesis by blast
qed

lemma cancel_order_unchanged:
  "\<exists>e. cancel_order ObjectId db now order_id user_id = (Inl e, db)"
proof (cases "get_order ObjectId db order_id")
  case (Inl e)
  then show ?thesis by (simp add: cancel_order_def get_user_order_def)
next
  case (Inr order)
  with get_order_not_Inr show ?thesis by blast
qed

lemma mark_as_delivered_unchanged:
  "\<exists>e. mark_as_delivered ObjectId db now order_id = (Inl e, db)"
proof (cases "get_order ObjectId db order_id")
  case (Inl e)
  then show ?thesis by (simp add: mark_as_delivered_def)
next
  case (Inr order)
  with get_order_not_Inr show ?thesis by blast
qed

subsection \<open>The operations at the example data\<close>

lemma hex_ObjectId_widget_id: "hex_ObjectId widget_id = Some widget_id"
  by (simp add: hex_ObjectId_def widget_id_def)

lemma hex_ObjectId_gadget_id: "hex_ObjectId gadget_id = Some gadget_id"
  by (simp add: hex_ObjectId_def gadget_id_def)

lemma hex_ObjectId_order_id_1: "hex_ObjectId order_id_1 = Some order_id_1"
  by (simp add: hex_ObjectId_def order_id_1_def)

lemma gadget_id_neq_widget_id: "gadget_id \<noteq> widget_id"
  by (simp add: gadget_id_def widget_id_def)

lemma example_shipping_stripped:
  "str_strip (address example_shipping) = ''1 Main St''"
  "str_strip (city example_shipping) = ''Chennai''"
  "str_strip (country example_shipping) = ''IN''"
  "str_strip (postal_code example_shipping) = ''600001''"
  "str_strip (phone_no example_shipping) = ''5550100''"
  by (simp_all add: example_shipping_def str_strip_def is_space_def)

lemma example_request_valid:
  "valid_order_request example_shipping [example_item 3] 0 2 3"
  by (simp add: valid_order_request_def example_shipping_stripped example_item_def)

lemma example_order_document_valid: "valid_order_document (example_order st)"
  by (simp add: valid_order_document_def example_order_def example_shipping_stripped)

lemma example_get_by_id:
  "get_by_id hex_ObjectId (orders (example_db st)) order_id_1 = Some (example_order st)"
  by (simp add: get_by_id_def hex_ObjectId_order_id_1 example_db_def)

lemma example_item_available:
  "\<forall>item \<in> set [example_item 3].
     \<exists>p. get_by_id hex_ObjectId (example_products 5) (item_product item) = Some p
         \<and> item_quantity item \<le> stock p"
  by (simp add: get_by_id_def example_item_def hex_ObjectId_widget_id example_products_def)

lemma example_request_valid_any_items_price:
  "0 \<le> ip \<Longrightarrow> valid_order_request example_shipping [example_item 3] ip 2 3"
  using example_request_valid by (simp add: valid_order_request_def)

lemma create_order_raises:
  assumes valid: "valid_order_request shipping_info_d order_items_d items_price_a tax_price_a
                    shipping_price_a"
    and avail: "\<forall>item \<in> set order_items_d.
                  \<exists>p. get_by_id ObjectId (products db) (item_product item) = Some p
                      \<and> item_quantity item \<le> stock p"
  shows "create_order ObjectId db new_id now user_id shipping_info_d order_items_d items_price_a
           tax_price_a shipping_price_a payment_info_d = (Inl RecursionError, db)"
proof -
  from avail have "\<forall>item \<in> set order_items_d. \<exists>k p. ObjectId (item_product item) = Some k
      \<and> map_of (products db) k = Some p \<and> item_quantity item \<le> stock p"
    by (auto simp: get_by_id_def split: option.splits)
  then have val: "validate_stock_availability ObjectId (products db) order_items_d = Inr ()"
    by (rule validate_stock_availability_ok)
  obtain shipping where sh: "ShippingInfo_init (address shipping_info_d) (city shipping_info_d)
             (country shipping_info_d) (postal_code shipping_info_d) (phone_no shipping_info_d)
             = Inr shipping"
    using valid by (simp add: valid_order_request_def ShippingInfo_init_def Suc_le_eq)
  from valid have "list_all (\<lambda>item. of_int \<lfloor>item_price item\<rfloor> = item_price item
      \<and> 0 \<le> item_price item \<and> 1 \<le> item_quantity item) order_items_d"
    and ne: "order_items_d \<noteq> []"
    by (simp_all add: valid_order_request_def)
  from build_items_valid [OF this(1)] obtain items where
    its: "build_items order_items_d = Inr items"
    and len: "length items = length order_items_d"
    and ok: "list_all (\<lambda>item. 0 \<le> price item \<and> 1 \<le> quantity item) items"
    by blast
  from len ne have "items \<noteq> []" by auto
  then have "Order_init user_id shipping items items_price_a tax_price_a shipping_price_a
             (Some (PaymentInfo_init (payment_id payment_info_d) (status payment_info_d)))
             (if status payment_info_d = ''succeeded'' then Some now else None)
             PROCESSING now = Inl RecursionError"
    using valid ok by (intro Order_init_raises) (simp_all add: valid_order_request_def)
  then show ?thesis
    by (simp add: create_order_def val sh its)
qed

section \<open>Order creation rejects unavailable items\<close>

text \<open>
  Claim C2, as the code has it. If some requested item names a product that does not exist,
  or a product whose stock is strictly less than the item's quantity, \<open>create_order\<close> fails
  with \<open>ValidationError\<close> in both cases (the code raises \<open>ValidationError\<close>, not
  \<open>NotFoundError\<close>, for the missing product). The failure comes before any write: the
  database returned is the database given, so every stock is unchanged and no order is
  stored.
\<close>

theorem create_order_unavailable_item:
  assumes "item \<in> set order_items_d"
    and "get_by_id ObjectId (products db) (item_product item) = None \<or>
         (\<exists>p. get_by_id ObjectId (products db) (item_product item) = Some p
               \<and> stock p < item_quantity item)"
  shows "create_order ObjectId db new_id now user_id shipping_info_d order_items_d items_price_a
           tax_price_a shipping_price_a payment_info_d = (Inl ValidationError, db)"
  using validate_stock_availability_fails [OF assms]
  by (simp add: create_order_def)

text \<open>The statement at the example data.\<close>

theorem create_order_unavailable_item_witness:
  "create_order hex_ObjectId \<lparr>products = example_products 5, orders = []\<rparr> order_id_1 100
     ''alice'' example_shipping [example_item 6] 0 2 3 example_payment
   = (Inl ValidationError, \<lparr>products = example_products 5, orders = []\<rparr>)"
proof -
  let ?db = "\<lparr>products = example_products 5, orders = []\<rparr> :: string database"
  have m: "example_item 6 \<in> set [example_item 6]" by simp
  have u: "get_by_id hex_ObjectId (products ?db) (item_product (example_item 6)) = None \<or>
         (\<exists>p. get_by_id hex_ObjectId (products ?db) (item_product (example_item 6)) = Some p
               \<and> stock p < item_quantity (example_item 6))"
    by (simp add: get_by_id_def example_item_def hex_ObjectId_widget_id example_products_def)
  show ?thesis
    by (rule create_order_unavailable_item [OF m u])
qed

text \<open>
  A request for a product that does not exist is answered with \<open>ValidationError\<close>, not with
  \<open>NotFoundError\<close>.
\<close>

theorem create_order_missing_product_counterexample:
  "get_by_id hex_ObjectId (example_products 5) gadget_id = None
 \<and> fst (create_order hex_ObjectId \<lparr>products = example_products 5, orders = []\<rparr> order_id_1 100
          ''alice'' example_shipping [(example_item 1)\<lparr>item_product := gadget_id\<rparr>] 0 2 3
          example_payment) = Inl ValidationError
 \<and> fst (create_order hex_ObjectId \<lparr>products = example_products 5, orders = []\<rparr> order_id_1 100
          ''alice'' example_shipping [(example_item 1)\<lparr>item_product := gadget_id\<rparr>] 0 2 3
          example_payment) \<noteq> Inl NotFoundError"
  by (simp add: create_order_def get_by_id_def hex_ObjectId_gadget_id example_products_def
      example_item_def gadget_id_neq_widget_id)

section \<open>Order creation on a valid, satisfiable request\<close>

text \<open>
  Claim C3 says that \<open>create_order\<close> succeeds when every requested product exists with
  enough stock. What the code does instead: for every request that passes the field
  constraints of the entities (non-blank shipping fields, at least one item, every item with
  an integral non-negative price and a quantity of at least 1, non-negative amounts) and in
  which every requested product exists with a stock of at least its item's quantity,
  \<open>create_order\<close> raises \<open>RecursionError\<close>, out of the constructor of \<open>Order\<close>, and leaves
  the database as it was: no order is stored and no stock is lowered.
\<close>

theorem create_order_valid_request_raises:
  assumes "valid_order_request shipping_info_d order_items_d items_price_a tax_price_a
             shipping_price_a"
    and "\<forall>item \<in> set order_items_d.
           \<exists>p. get_by_id ObjectId (products db) (item_product item) = Some p
               \<and> item_quantity item \<le> stock p"
  shows "create_order ObjectId db new_id now user_id shipping_info_d order_items_d items_price_a
           tax_price_a shipping_price_a payment_info_d = (Inl RecursionError, db)"
  using assms by (rule create_order_raises)

text \<open>
  The statement at the example data: three widgets at 10, of which five are in stock.
\<close>

theorem create_order_valid_request_raises_witness:
  "valid_order_request example_shipping [example_item 3] 0 2 3
 \<and> get_by_id hex_ObjectId (example_products 5) widget_id
     = Some \<lparr>product_name = ''Widget'', product_price = 10, stock = 5\<rparr>
 \<and> create_order hex_ObjectId \<lparr>products = example_products 5, orders = []\<rparr> order_id_1 100
     ''alice'' example_shipping [example_item 3] 0 2 3 example_payment
     = (Inl RecursionError, \<lparr>products = example_products 5, orders = []\<rparr>)"
proof -
  let ?db = "\<lparr>products = example_products 5, orders = []\<rparr> :: string database"
  have a: "\<forall>item \<in> set [example_item 3].
             \<exists>p. get_by_id hex_ObjectId (products ?db) (item_product item) = Some p
                 \<and> item_quantity item \<le> stock p"
    using example_item_available by simp
  have g: "get_by_id hex_ObjectId (example_products 5) widget_id
             = Some \<lparr>product_name = ''Widget'', product_price = 10, stock = 5\<rparr>"
    by (simp add: get_by_id_def hex_ObjectId_widget_id example_products_def)
  from create_order_valid_request_raises [where ObjectId = hex_ObjectId and db = ?db,
      OF example_request_valid a] example_request_valid g
  show ?thesis by simp
qed

section \<open>Cancellation\<close>

text \<open>
  Claim C4 says that the owner's \<open>cancel_order\<close> succeeds on a cancellable order and fails
  with \<open>ValidationError\<close> on the others. The cancellable statuses are \<open>PROCESSING\<close>,
  \<open>CONFIRMED\<close> and \<open>SHIPPED\<close>, as the claim says. But for every stored order document that
  passes the field constraints, \<open>cancel_order\<close> raises \<open>RecursionError\<close>, out of the read of
  the order and before the checks of owner and status, whoever calls and whatever the
  status; the database, stocks and status included, is left as it was.
\<close>

theorem cancel_order_raises:
  "is_cancellable s = (s \<in> {PROCESSING, CONFIRMED, SHIPPED})
 \<and> (get_by_id ObjectId (orders db) order_id = Some document \<and> valid_order_document document
      \<longrightarrow> cancel_order ObjectId db now order_id user_id = (Inl RecursionError, db))"
proof -
  have "cancel_order ObjectId db now order_id user_id = (Inl RecursionError, db)"
    if "get_by_id ObjectId (orders db) order_id = Some document"
      and "valid_order_document document"
    using get_order_raises [OF that]
    by (simp add: cancel_order_def get_user_order_def)
  then show ?thesis
    by (simp add: is_cancellable_def)
qed

text \<open>
  The statement at the example data: the owner cancels a shipped order, and a delivered one.
\<close>

theorem cancel_order_raises_witness:
  "is_cancellable SHIPPED \<and> \<not> is_cancellable DELIVERED
 \<and> user (example_order SHIPPED) = ''alice''
 \<and> cancel_order hex_ObjectId (example_db SHIPPED) 200 order_id_1 ''alice''
     = (Inl RecursionError, example_db SHIPPED)
 \<and> cancel_order hex_ObjectId (example_db DELIVERED) 200 order_id_1 ''alice''
     = (Inl RecursionError, example_db DELIVERED)"
proof -
  note t = cancel_order_raises [where ObjectId = hex_ObjectId and order_id = order_id_1
      and now = 200 and user_id = "''alice''"]
  have "is_cancellable SHIPPED" and "\<not> is_cancellable DELIVERED"
    using t [where s = SHIPPED] t [where s = DELIVERED] by simp_all
  moreover have "cancel_order hex_ObjectId (example_db st) 200 order_id_1 ''alice''
     = (Inl RecursionError, example_db st)" for st
    using t [where db = "example_db st" and document = "example_order st"]
      example_get_by_id example_order_document_valid by blast
  moreover have "user (example_order SHIPPED) = ''alice''"
    by (simp add: example_order_def)
  ultimately show ?thesis by blast
qed

section \<open>The guarded stock update\<close>

text \<open>
  Claim C5, as the code has it. For a product that exists under the given id with a
  non-negative stock, and a non-zero change, \<open>update_stock\<close> returns false exactly when
  applying the change would make the stock negative; in particular every positive change
  succeeds. In the failing case the collection is unchanged, otherwise the product's stock
  is the old stock plus the change. (For an id that names no product the operation returns
  false.)
\<close>

theorem update_stock_existing_product:
  assumes "ObjectId product_id = Some object_id"
    and "map_of c object_id = Some p"
    and "0 \<le> stock p"
    and "quantity_change \<noteq> 0"
  shows "(\<not> fst (update_stock ObjectId c product_id quantity_change)) = (stock p + quantity_change < 0)
       \<and> (0 < quantity_change \<longrightarrow> fst (update_stock ObjectId c product_id quantity_change))
       \<and> map_of (snd (update_stock ObjectId c product_id quantity_change)) =
           (if stock p + quantity_change < 0 then map_of c
            else (map_of c)(object_id \<mapsto> p\<lparr>stock := stock p + quantity_change\<rparr>))"
proof -
  let ?guard = "(if quantity_change < 0 then - quantity_change else 0) \<le> stock p"
  have guard: "?guard = (\<not> stock p + quantity_change < 0)"
    using assms(3) by auto
  have res: "fst (update_stock ObjectId c product_id quantity_change) = ?guard"
    using assms(1,2,4)
    by (simp add: update_stock_def update_one_def stock_update_eq split: prod.split)
  have m: "map_of (snd (update_stock ObjectId c product_id quantity_change)) =
           (if ?guard then (map_of c)(object_id \<mapsto> p\<lparr>stock := stock p + quantity_change\<rparr>)
            else map_of c)"
    using assms(1,2) by (simp add: map_of_update_stock)
  show ?thesis
    using res m guard assms(3) by auto
qed

text \<open>The statement at the example data.\<close>

theorem update_stock_existing_product_witness:
  "update_stock hex_ObjectId (example_products 5) widget_id (- 3)
     = (True, example_products 2)
 \<and> \<not> fst (update_stock hex_ObjectId (example_products 5) widget_id (- 6))
 \<and> fst (update_stock hex_ObjectId (example_products 5) widget_id 3)"
proof -
  let ?p = "\<lparr>product_name = ''Widget'', product_price = 10, stock = 5\<rparr>"
  have k: "hex_ObjectId widget_id = Some widget_id" by (rule hex_ObjectId_widget_id)
  have p: "map_of (example_products 5) widget_id = Some ?p"
    by (simp add: example_products_def)
  have s: "0 \<le> stock ?p" by simp
  have "fst (update_stock hex_ObjectId (example_products 5) widget_id (- 3))"
    using update_stock_existing_product [where ObjectId = hex_ObjectId and quantity_change = "- 3", OF k p s] by simp
  moreover have "snd (update_stock hex_ObjectId (example_products 5) widget_id (- 3))
                   = example_products 2"
    by (simp add: update_stock_def update_one_def k example_products_def)
  moreover have "\<not> fst (update_stock hex_ObjectId (example_products 5) widget_id (- 6))"
    using update_stock_existing_product [where ObjectId = hex_ObjectId and quantity_change = "- 6", OF k p s] by simp
  moreover have "fst (update_stock hex_ObjectId (example_products 5) widget_id 3)"
    using update_stock_existing_product [where ObjectId = hex_ObjectId and quantity_change = 3, OF k p s] by simp
  ultimately show ?thesis
    by (metis prod.collapse)
qed

text \<open>
  A positive change for an id that names no product: the update returns false, although no
  stock would become negative.
\<close>

theorem update_stock_missing_product_counterexample:
  "get_by_id hex_ObjectId (example_products 5) gadget_id = None
 \<and> update_stock hex_ObjectId (example_products 5) gadget_id 4 = (False, example_products 5)"
  by (simp add: get_by_id_def update_stock_def update_one_def hex_ObjectId_gadget_id
      example_products_def gadget_id_neq_widget_id)

section \<open>Totals at creation\<close>

text \<open>
  Claim C6 says that every order has, at creation, \<open>items_price\<close> equal to the sum of its
  line subtotals and \<open>total_price\<close> equal to that plus tax and shipping. What the code does
  instead: the constructor of \<open>Order\<close> never returns an order, and for every non-empty list
  of valid items and non-negative amounts it raises \<open>RecursionError\<close>, out of
  \<open>calculate_totals\<close>, whose assignment of \<open>items_price\<close> runs \<open>calculate_totals\<close> again.
\<close>

theorem order_construction_raises:
  "Order_init u sh its ip tp sp pay paid st now \<noteq> Inr order
 \<and> (its \<noteq> [] \<and> 0 \<le> ip \<and> 0 \<le> tp \<and> 0 \<le> sp
      \<and> list_all (\<lambda>item. 0 \<le> price item \<and> 1 \<le> quantity item) its
      \<longrightarrow> Order_init u sh its ip tp sp pay paid st now = Inl RecursionError)"
  by (simp add: Order_init_not_Inr Order_init_raises)

text \<open>The statement at the example data.\<close>

theorem order_construction_raises_witness:
  "Order_init ''alice'' example_shipping
     [\<lparr>product = widget_id, name = ''Widget'', price = 10, quantity = 3, image = ''widget.png''\<rparr>]
     30 2 3 (Some example_payment) (Some 100) PROCESSING 100 = Inl RecursionError"
  using order_construction_raises [of "''alice''" example_shipping
      "[\<lparr>product = widget_id, name = ''Widget'', price = 10, quantity = 3,
          image = ''widget.png''\<rparr>]" 30 2 3 "Some example_payment" "Some 100" PROCESSING 100]
  by simp

section \<open>Status update to delivered\<close>

text \<open>
  Claim C7 says that \<open>update_order_status\<close> to \<open>DELIVERED\<close> succeeds from
  \<open>OUT_FOR_DELIVERY\<close> and fails with \<open>ValidationError\<close> from \<open>PROCESSING\<close>. What the code does
  instead: for every stored order document that passes the field constraints,
  \<open>update_order_status\<close> raises \<open>RecursionError\<close>, out of the read of the order and before
  the transition check, whatever the current and the target status; the database is left as
  it was, so no \<open>delivered_at\<close> is set.
\<close>

theorem update_order_status_raises:
  assumes "get_by_id ObjectId (orders db) order_id = Some document"
    and "valid_order_document document"
  shows "update_order_status ObjectId db now order_id new_status = (Inl RecursionError, db)"
  using get_order_raises [OF assms]
  by (simp add: update_order_status_def)

text \<open>
  The statement at the example data: to \<open>DELIVERED\<close> from \<open>OUT_FOR_DELIVERY\<close>, and from
  \<open>PROCESSING\<close>.
\<close>

theorem update_order_status_raises_witness:
  "order_status (example_order OUT_FOR_DELIVERY) = OUT_FOR_DELIVERY
 \<and> update_order_status hex_ObjectId (example_db OUT_FOR_DELIVERY) 200 order_id_1 DELIVERED
     = (Inl RecursionError, example_db OUT_FOR_DELIVERY)
 \<and> order_status (example_order PROCESSING) = PROCESSING
 \<and> update_order_status hex_ObjectId (example_db PROCESSING) 200 order_id_1 DELIVERED
     = (Inl RecursionError, example_db PROCESSING)"
  using update_order_status_raises [OF example_get_by_id example_order_document_valid,
      of OUT_FOR_DELIVERY 200 DELIVERED]
    update_order_status_raises [OF example_get_by_id example_order_document_valid,
      of PROCESSING 200 DELIVERED]
  by (simp add: example_order_def)

section \<open>Sales statistics over no orders\<close>

text \<open>
  Claim C8. When no order of the collection matches the date bounds (in particular when the
  collection is empty), \<open>get_sales_stats\<close> returns a result, and in it \<open>total_orders\<close>,
  \<open>total_sales\<close>, \<open>average_order_value\<close>, \<open>delivered_orders\<close>, \<open>processing_orders\<close> and
  \<open>cancelled_orders\<close> are all 0, whatever the server's accumulators compute.
\<close>

theorem get_sales_stats_no_match:
  assumes "\<forall>doc \<in> snd ` set c. \<not> match_stage start_date end_date doc"
  shows "get_sales_stats sum_acc avg_acc c start_date end_date =
           \<lparr>total_orders = 0, total_sales = 0, average_order_value = 0,
            delivered_orders = 0, processing_orders = 0, cancelled_orders = 0\<rparr>"
proof -
  have "filter (match_stage start_date end_date) (map snd c) = []"
    using assms by (simp add: filter_empty_conv)
  then show ?thesis
    by (simp add: get_sales_stats_def group_stage_def)
qed

text \<open>The statement at the example data, with exact sum and mean for the accumulators.\<close>

theorem get_sales_stats_no_match_witness:
  "get_sales_stats sum_list (\<lambda>xs. sum_list xs / of_nat (length xs))
     (orders (example_db PROCESSING)) (Some 200) (Some 300)
     = \<lparr>total_orders = 0, total_sales = 0, average_order_value = 0,
        delivered_orders = 0, processing_orders = 0, cancelled_orders = 0\<rparr>
 \<and> get_sales_stats sum_list (\<lambda>xs. sum_list xs / of_nat (length xs))
     ([] :: (string, Order) collection) None None
     = \<lparr>total_orders = 0, total_sales = 0, average_order_value = 0,
        delivered_orders = 0, processing_orders = 0, cancelled_orders = 0\<rparr>"
proof -
  have a: "\<forall>doc \<in> snd ` set (orders (example_db PROCESSING)).
             \<not> match_stage (Some 200) (Some 300) doc"
    by (simp add: example_db_def example_order_def match_stage_def)
  have b: "\<forall>doc \<in> snd ` set ([] :: (string, Order) collection). \<not> match_stage None None doc"
    by simp
  show ?thesis
    using get_sales_stats_no_match [OF a] get_sales_stats_no_match [OF b] by simp
qed

section \<open>The supplied items price\<close>

text \<open>
  Claim C9 says that two calls of \<open>create_order\<close> that differ only in the \<open>items_price\<close>
  argument yield orders with the same \<open>items_price\<close> and \<open>total_price\<close>. What the code does
  instead: whatever the two \<open>items_price\<close> arguments are, neither call returns an order.
\<close>

theorem create_order_returns_no_order:
  "fst (create_order ObjectId db new_id now user_id shipping_info_d order_items_d items_price_a
          tax_price_a shipping_price_a payment_info_d) \<noteq> Inr order_a
 \<and> fst (create_order ObjectId db new_id now user_id shipping_info_d order_items_d items_price_b
          tax_price_a shipping_price_a payment_info_d) \<noteq> Inr order_b"
  by (simp add: create_order_not_Inr)

text \<open>
  The statement at the example data: with \<open>items_price\<close> 0 and with \<open>items_price\<close> 999 the
  call raises \<open>RecursionError\<close> and leaves the database as it was.
\<close>

theorem create_order_returns_no_order_witness:
  "fst (create_order hex_ObjectId \<lparr>products = example_products 5, orders = []\<rparr> order_id_1 100
          ''alice'' example_shipping [example_item 3] 0 2 3 example_payment)
     \<noteq> Inr (example_order PROCESSING)
 \<and> fst (create_order hex_ObjectId \<lparr>products = example_products 5, orders = []\<rparr> order_id_1 100
          ''alice'' example_shipping [example_item 3] 999 2 3 example_payment)
     \<noteq> Inr (example_order PROCESSING)
 \<and> create_order hex_ObjectId \<lparr>products = example_products 5, orders = []\<rparr> order_id_1 100
          ''alice'' example_shipping [example_item 3] 0 2 3 example_payment
     = (Inl RecursionError, \<lparr>products = example_products 5, orders = []\<rparr>)
 \<and> create_order hex_ObjectId \<lparr>products = example_products 5, orders = []\<rparr> order_id_1 100
          ''alice'' example_shipping [example_item 3] 999 2 3 example_payment
     = (Inl RecursionError, \<lparr>products = example_products 5, orders = []\<rparr>)"
proof -
  let ?db = "\<lparr>products = example_products 5, orders = []\<rparr> :: string database"
  have a: "\<forall>item \<in> set [example_item 3].
             \<exists>p. get_by_id hex_ObjectId (products ?db) (item_product item) = Some p
                 \<and> item_quantity item \<le> stock p"
    using example_item_available by simp
  have r: "create_order hex_ObjectId ?db order_id_1 100 ''alice'' example_shipping
             [example_item 3] ip 2 3 example_payment = (Inl RecursionError, ?db)"
    if "0 \<le> ip" for ip
    using example_request_valid_any_items_price [OF that] a by (rule create_order_raises)
  from create_order_returns_no_order [where ObjectId = hex_ObjectId and db = ?db
      and new_id = order_id_1 and now = 100 and user_id = "''alice''"
      and shipping_info_d = example_shipping and order_items_d = "[example_item 3]"
      and items_price_a = 0 and items_price_b = 999 and tax_price_a = 2
      and shipping_price_a = 3 and payment_info_d = example_payment
      and order_a = "example_order PROCESSING" and order_b = "example_order PROCESSING"]
    r [of 0] r [of 999]
  show ?thesis by simp
qed

section \<open>Every order has a line item\<close>

text \<open>
  Claim C10. Constructing an \<open>Order\<close> with an empty item list is rejected; an order that the
  constructor builds, or that \<open>create_order\<close> returns, has at least one item; and if every
  stored order has at least one item, then so has every stored order after \<open>create_order\<close>,
  \<open>update_order_status\<close>, \<open>cancel_order\<close> and \<open>mark_as_delivered\<close>, and so has every order
  these operations return.
\<close>

theorem order_always_has_items:
  "Order_init u sh [] ip tp sp pay paid st now = Inl PydanticValidationError
 \<and> (\<forall>order. Order_init u sh its ip tp sp pay paid st now = Inr order \<longrightarrow> order_items order \<noteq> [])
 \<and> (\<forall>order. fst (create_order ObjectId db new_id now user_id shipping_info_d order_items_d
                    items_price_a tax_price_a shipping_price_a payment_info_d) = Inr order
        \<longrightarrow> order_items order \<noteq> [])
 \<and> (orders_have_items db \<longrightarrow>
       orders_have_items (snd (create_order ObjectId db new_id now user_id shipping_info_d
           order_items_d items_price_a tax_price_a shipping_price_a payment_info_d))
     \<and> orders_have_items (snd (update_order_status ObjectId db now order_id new_status))
     \<and> orders_have_items (snd (cancel_order ObjectId db now order_id user_id))
     \<and> orders_have_items (snd (mark_as_delivered ObjectId db now order_id))
     \<and> (\<forall>order. fst (update_order_status ObjectId db now order_id new_status) = Inr order
           \<or> fst (cancel_order ObjectId db now order_id user_id) = Inr order
           \<or> fst (mark_as_delivered ObjectId db now order_id) = Inr order
          \<longrightarrow> order_items order \<noteq> []))"
proof -
  have 1: "Order_init u sh [] ip tp sp pay paid st now = Inl PydanticValidationError"
    by (simp add: Order_init_def)
  obtain e1 where u: "update_order_status ObjectId db now order_id new_status = (Inl e1, db)"
    using update_order_status_unchanged by blast
  obtain e2 where c: "cancel_order ObjectId db now order_id user_id = (Inl e2, db)"
    using cancel_order_unchanged by blast
  obtain e3 where m: "mark_as_delivered ObjectId db now order_id = (Inl e3, db)"
    using mark_as_delivered_unchanged by blast
  show ?thesis
    using 1 by (simp add: Order_init_not_Inr create_order_not_Inr create_order_unchanged u c m)
qed

text \<open>The statement at the example data.\<close>

theorem order_always_has_items_witness:
  "Order_init ''alice'' example_shipping [] 0 2 3 (Some example_payment) (Some 100) PROCESSING 200
     = Inl PydanticValidationError
 \<and> orders_have_items (example_db SHIPPED)
 \<and> orders_have_items (snd (cancel_order hex_ObjectId (example_db SHIPPED) 200 order_id_1 ''alice''))
 \<and> orders_have_items (snd (create_order hex_ObjectId (example_db SHIPPED) gadget_id 200 ''alice''
      example_shipping [example_item 1] 0 2 3 example_payment))"
proof -
  have i: "orders_have_items (example_db SHIPPED)"
    by (simp add: orders_have_items_def example_db_def example_order_def)
  note t = order_always_has_items [where db = "example_db SHIPPED" and ObjectId = hex_ObjectId
      and now = 200 and order_id = order_id_1 and user_id = "''alice''" and new_id = gadget_id
      and shipping_info_d = example_shipping and order_items_d = "[example_item 1]"
      and items_price_a = 0 and tax_price_a = 2 and shipping_price_a = 3
      and payment_info_d = example_payment and u = "''alice''" and sh = example_shipping
      and ip = 0 and tp = 2 and sp = 3 and pay = "Some example_payment" and paid = "Some 100"
      and st = PROCESSING]
  from t i show ?thesis by blast
qed

end
